theory Spec2Isabelle
  imports Complex_Main
begin

section \<open>Kinematics and workspace sampling of the planar arms\<close>

text \<open>
  The development embeds the two arm models of the repository:
  \<^item> \<^verbatim>\<open>assignment1/partb/robot_arm.py\<close>, class \<^verbatim>\<open>RoboticArm\<close> (all joints revolute), and
    the area estimate of \<^verbatim>\<open>workspace_visualization.py\<close>;
  \<^item> \<^verbatim>\<open>assignment1/partc/robotic_arm_4dof.py\<close>, classes \<^verbatim>\<open>Joint\<close> and
    \<^verbatim>\<open>RoboticArm4DOF\<close> (revolute and prismatic joints).

  Python floats are read as real numbers, numpy arrays of shape (2,) as pairs and
  one-dimensional arrays as lists. Exceptions are values of \<open>py_error\<close>, returned as
  \<open>Inl\<close>. \<^verbatim>\<open>scipy.optimize.minimize\<close> is not code of the repository: it is a parameter of
  every function that calls it.
\<close>

subsection \<open>Errors, points and numpy helpers\<close>

datatype py_error = IndexError | ValueError | ZeroDivisionError

type_synonym point = "real \<times> real"

definition padd :: "point \<Rightarrow> point \<Rightarrow> point" where
  "padd p q = (fst p + fst q, snd p + snd q)"

definition psub :: "point \<Rightarrow> point \<Rightarrow> point" where
  "psub p q = (fst p - fst q, snd p - snd q)"

text \<open>\<^verbatim>\<open>np.linalg.norm\<close> of a 2-vector.\<close>

definition pnorm :: "point \<Rightarrow> real" where
  "pnorm p = sqrt ((fst p)\<^sup>2 + (snd p)\<^sup>2)"

text \<open>\<^verbatim>\<open>np.cumsum\<close>: running sums, one per element.\<close>

fun cumsum_from :: "real \<Rightarrow> real list \<Rightarrow> real list" where
  "cumsum_from a [] = []"
| "cumsum_from a (v # vs) = (a + v) # cumsum_from (a + v) vs"

definition cumsum :: "real list \<Rightarrow> real list" where
  "cumsum vs = cumsum_from 0 vs"

text \<open>
  \<^verbatim>\<open>np.linspace(start, stop, num)\<close> with the default \<^verbatim>\<open>endpoint=True\<close>: a negative
  \<^verbatim>\<open>num\<close> raises ValueError, \<^verbatim>\<open>num = 0\<close> gives the empty array, \<^verbatim>\<open>num = 1\<close> gives
  \<^verbatim>\<open>[start]\<close>, and otherwise the step is \<^verbatim>\<open>(stop - start) / (num - 1)\<close>.
\<close>

definition linspace :: "real \<Rightarrow> real \<Rightarrow> int \<Rightarrow> py_error + real list" where
  "linspace start stop num =
     (if num < 0 then Inl ValueError
      else if num = 0 then Inr []
      else if num = 1 then Inr [start]
      else Inr (map (\<lambda>k. start + real k * ((stop - start) / real_of_int (num - 1)))
                  [0..<nat num]))"

text \<open>The fields of scipy's \<^verbatim>\<open>OptimizeResult\<close> that the callers read, and the durations
  of the objective evaluations the optimizer made (each evaluation of the 4-DOF objective
  runs \<^verbatim>\<open>forward_kinematics\<close>, which records its duration on the arm).\<close>

record OptimizeResult =
  res_success :: bool
  res_fun :: real
  res_x :: "real list"
  res_eval_times :: "real list"

subsection \<open>The 4-DOF arm: \<^verbatim>\<open>robotic_arm_4dof.py\<close>\<close>

record Joint =
  joint_type :: string
  limits :: "real \<times> real"
  jvalue :: real
  min_limit :: real
  max_limit :: real

text \<open>\<^verbatim>\<open>Joint.__init__\<close>; every call in the repository leaves \<^verbatim>\<open>initial_value\<close> at 0.0.\<close>

definition Joint_init :: "string \<Rightarrow> real \<times> real \<Rightarrow> real \<Rightarrow> Joint" where
  "Joint_init jt lmts initial_value =
     \<lparr>joint_type = jt, limits = lmts, jvalue = initial_value,
      min_limit = fst lmts, max_limit = snd lmts\<rparr>"

text \<open>\<^verbatim>\<open>Joint.set_value\<close>: the updated joint and the returned flag.\<close>

definition set_value :: "Joint \<Rightarrow> real \<Rightarrow> Joint \<times> bool" where
  "set_value j v =
     (if min_limit j \<le> v \<and> v \<le> max_limit j then (j\<lparr>jvalue := v\<rparr>, True)
      else (j, False))"

record RoboticArm4DOF =
  base_links :: "real list"
  num_joints :: nat
  joints :: "Joint list"
  joint_values :: "real list"
  base_position :: point
  fk_calculations :: nat
  ik_calculations :: nat
  calculation_times :: "real list"

text \<open>The loop of \<^verbatim>\<open>RoboticArm4DOF.__init__\<close>: \<^verbatim>\<open>joint_types[i]\<close> and
  \<^verbatim>\<open>joint_limits[i]\<close> raise IndexError beyond the end of their lists.\<close>

fun init_joints ::
  "nat list \<Rightarrow> string list \<Rightarrow> (real \<times> real) list \<Rightarrow> Joint list \<Rightarrow> py_error + Joint list" where
  "init_joints [] jts lims acc = Inr acc"
| "init_joints (i # rest) jts lims acc =
     (if i < length jts \<and> i < length lims
      then init_joints rest jts lims (acc @ [Joint_init (jts ! i) (lims ! i) 0])
      else Inl IndexError)"

definition RoboticArm4DOF_init ::
  "real list \<Rightarrow> string list \<Rightarrow> (real \<times> real) list \<Rightarrow> py_error + RoboticArm4DOF" where
  "RoboticArm4DOF_init links jts lims =
     (case init_joints [0..<4] jts lims [] of
        Inl e \<Rightarrow> Inl e
      | Inr js \<Rightarrow>
          Inr \<lparr>base_links = links, num_joints = 4, joints = js,
               joint_values = map jvalue js, base_position = (0, 0),
               fk_calculations = 0, ik_calculations = 0, calculation_times = []\<rparr>)"

text \<open>The link a revolute joint of index \<open>i\<close> moves along: \<^verbatim>\<open>self.base_links[i]\<close>, or
  the default 1.0 when \<^verbatim>\<open>base_links\<close> has no entry \<open>i\<close>.\<close>

definition link_length :: "real list \<Rightarrow> nat \<Rightarrow> real" where
  "link_length links i = (if i < length links then links ! i else 1)"

text \<open>The loop of \<^verbatim>\<open>forward_kinematics\<close> over \<^verbatim>\<open>zip(self.joints, joint_values)\<close>, with the
  loop index, \<^verbatim>\<open>current_pos\<close>, \<^verbatim>\<open>current_angle\<close> and the list \<^verbatim>\<open>joint_positions\<close>. A joint
  whose type is neither string moves nothing, and its position is appended all the same.\<close>

fun fk_loop ::
  "real list \<Rightarrow> (Joint \<times> real) list \<Rightarrow> nat \<Rightarrow> point \<Rightarrow> real \<Rightarrow> point list
     \<Rightarrow> point \<times> real \<times> point list" where
  "fk_loop links [] i current_pos current_angle joint_positions =
     (current_pos, current_angle, joint_positions)"
| "fk_loop links ((joint, v) # rest) i current_pos current_angle joint_positions =
     (if joint_type joint = ''revolute'' then
        (let angle' = current_angle + v;
             pos' = padd current_pos
                      (link_length links i * cos angle', link_length links i * sin angle')
         in fk_loop links rest (i + 1) pos' angle' (joint_positions @ [pos']))
      else if joint_type joint = ''prismatic'' then
        (let extension = v;
             pos' = padd current_pos
                      (extension * cos current_angle, extension * sin current_angle)
         in fk_loop links rest (i + 1) pos' current_angle (joint_positions @ [pos']))
      else fk_loop links rest (i + 1) current_pos current_angle
             (joint_positions @ [current_pos]))"

text \<open>The value computed by \<^verbatim>\<open>forward_kinematics\<close> for an explicit joint vector:
  \<^verbatim>\<open>(end_effector_pos, joint_positions)\<close>.\<close>

definition fk_result :: "RoboticArm4DOF \<Rightarrow> real list \<Rightarrow> point \<times> point list" where
  "fk_result self vals =
     (case fk_loop (base_links self) (zip (joints self) vals) 0 (base_position self) 0
             [base_position self] of
        (current_pos, current_angle, joint_positions) \<Rightarrow> (current_pos, joint_positions))"

text \<open>\<^verbatim>\<open>forward_kinematics\<close> with its effect on the performance counters; \<open>elapsed\<close> is
  the wall-clock duration the call measures for itself.\<close>

definition forward_kinematics ::
  "RoboticArm4DOF \<Rightarrow> real list option \<Rightarrow> real \<Rightarrow> (point \<times> point list) \<times> RoboticArm4DOF" where
  "forward_kinematics self joint_values_arg elapsed =
     (let vals = (case joint_values_arg of None \<Rightarrow> joint_values self | Some v \<Rightarrow> v)
      in (fk_result self vals,
          self\<lparr>fk_calculations := fk_calculations self + 1,
               calculation_times := calculation_times self @ [elapsed]\<rparr>))"

text \<open>The two callbacks of \<^verbatim>\<open>inverse_kinematics\<close>.\<close>

definition objective_function :: "RoboticArm4DOF \<Rightarrow> point \<Rightarrow> real list \<Rightarrow> real" where
  "objective_function self target_pos joint_vals =
     pnorm (psub (fst (fk_result self joint_vals)) target_pos)"

definition constraint_function :: "RoboticArm4DOF \<Rightarrow> real list \<Rightarrow> real list" where
  "constraint_function self joint_vals =
     concat (map (\<lambda>(joint, val). [val - min_limit joint, max_limit joint - val])
                 (zip (joints self) joint_vals))"

type_synonym minimizer =
  "(real list \<Rightarrow> real) \<Rightarrow> real list \<Rightarrow> (real list \<Rightarrow> real list) \<Rightarrow> OptimizeResult"

text \<open>\<^verbatim>\<open>inverse_kinematics\<close>: \<open>minimize\<close> stands for the SLSQP call with its options,
  \<open>elapsed\<close> for the duration the call measures. The objective evaluations made by the
  optimizer each bump \<^verbatim>\<open>fk_calculations\<close> and append a duration.\<close>

definition inverse_kinematics ::
  "minimizer \<Rightarrow> RoboticArm4DOF \<Rightarrow> point \<Rightarrow> real list option \<Rightarrow> real
     \<Rightarrow> (bool \<times> real list) \<times> RoboticArm4DOF" where
  "inverse_kinematics minimize self target_pos initial_guess_arg elapsed =
     (let initial_guess =
            (case initial_guess_arg of None \<Rightarrow> joint_values self | Some g \<Rightarrow> g);
          result = minimize (objective_function self target_pos) initial_guess
                     (constraint_function self);
          self' = self\<lparr>fk_calculations :=
                         fk_calculations self + length (res_eval_times result),
                       ik_calculations := ik_calculations self + 1,
                       calculation_times :=
                         calculation_times self @ res_eval_times result @ [elapsed]\<rparr>;
          success = (res_success result \<and> res_fun result < 0.01)
      in ((success, if success then res_x result else initial_guess), self'))"

text \<open>The loop of \<^verbatim>\<open>set_joint_configuration\<close>: every joint of the zip gets its
  \<^verbatim>\<open>set_value\<close> call, whatever the earlier calls returned.\<close>

fun set_values_loop :: "Joint list \<Rightarrow> real list \<Rightarrow> bool \<Rightarrow> Joint list \<times> bool" where
  "set_values_loop (j # js) (v # vs) valid =
     (case set_value j v of
        (j', ok) \<Rightarrow>
          (case set_values_loop js vs (if \<not> ok then False else valid) of
             (js', valid') \<Rightarrow> (j' # js', valid')))"
| "set_values_loop js vs valid = (js, valid)"

definition set_joint_configuration ::
  "RoboticArm4DOF \<Rightarrow> real list \<Rightarrow> RoboticArm4DOF \<times> bool" where
  "set_joint_configuration self vals =
     (case set_values_loop (joints self) vals True of
        (js', valid) \<Rightarrow>
          (if valid then (self\<lparr>joints := js', joint_values := vals\<rparr>, True)
           else (self\<lparr>joints := js'\<rparr>, False)))"

text \<open>Python's \<^verbatim>\<open>max\<close> of a list: ValueError on the empty list.\<close>

definition py_max :: "real list \<Rightarrow> py_error + real" where
  "py_max vs = (case vs of [] \<Rightarrow> Inl ValueError | v # rest \<Rightarrow> Inr (foldl max v rest))"

record WorkspaceData =
  reachable_points :: "point list"
  reachability_ratio :: real
  total_points_tested :: int
  workspace_area :: real
  max_reach :: real

text \<open>The inner loop of \<^verbatim>\<open>get_workspace_analysis\<close> for one \<open>x\<close> of index \<open>i\<close>. The state
  is the arm (its counters change with every solver call), the list of reachable points,
  and \<open>solver_calls\<close>: the targets \<^verbatim>\<open>inverse_kinematics\<close> has been called on, in order.
  The last is not a variable of the source; it makes the calls observable.
  \<open>durations k\<close> is the duration measured by the solver call of progress index \<open>k\<close>.
  The progress test takes a remainder modulo \<^verbatim>\<open>total_points // 10\<close>.\<close>

fun analysis_row ::
  "minimizer \<Rightarrow> (nat \<Rightarrow> real) \<Rightarrow> int \<Rightarrow> nat \<Rightarrow> real \<Rightarrow> (nat \<times> real) list
     \<Rightarrow> RoboticArm4DOF \<times> point list \<times> point list
     \<Rightarrow> py_error + RoboticArm4DOF \<times> point list \<times> point list" where
  "analysis_row minimize durations resolution i xv [] st = Inr st"
| "analysis_row minimize durations resolution i xv ((j, yv) # rest) (self, reachable, solver_calls) =
     (let target = (xv, yv);
          total_points = resolution * resolution;
          k = int i * resolution + int j;
          r = inverse_kinematics minimize self target None (durations (nat k));
          success = fst (fst r);
          reachable' = (if success then reachable @ [target] else reachable)
      in if total_points div 10 = 0 then Inl ZeroDivisionError
         else analysis_row minimize durations resolution i xv rest
                (snd r, reachable', solver_calls @ [target]))"

fun analysis_grid ::
  "minimizer \<Rightarrow> (nat \<Rightarrow> real) \<Rightarrow> int \<Rightarrow> (nat \<times> real) list \<Rightarrow> real list
     \<Rightarrow> RoboticArm4DOF \<times> point list \<times> point list
     \<Rightarrow> py_error + RoboticArm4DOF \<times> point list \<times> point list" where
  "analysis_grid minimize durations resolution [] y_range st = Inr st"
| "analysis_grid minimize durations resolution ((i, xv) # rest) y_range st =
     (case analysis_row minimize durations resolution i xv (enumerate 0 y_range) st of
        Inl e \<Rightarrow> Inl e
      | Inr st' \<Rightarrow> analysis_grid minimize durations resolution rest y_range st')"

text \<open>\<^verbatim>\<open>get_workspace_analysis\<close>: the returned dictionary, the arm afterwards and the
  solver calls made.\<close>

definition get_workspace_analysis ::
  "minimizer \<Rightarrow> (nat \<Rightarrow> real) \<Rightarrow> RoboticArm4DOF \<Rightarrow> int
     \<Rightarrow> py_error + WorkspaceData \<times> RoboticArm4DOF \<times> point list" where
  "get_workspace_analysis minimize durations self resolution =
     (case py_max (map max_limit
                     (filter (\<lambda>joint. joint_type joint = ''prismatic'') (joints self))) of
        Inl e \<Rightarrow> Inl e
      | Inr m \<Rightarrow>
         (let mr = sum_list (base_links self) + m in
          case linspace (- mr) mr resolution of
            Inl e \<Rightarrow> Inl e
          | Inr x_range \<Rightarrow>
             (case linspace (- mr) mr resolution of
                Inl e \<Rightarrow> Inl e
              | Inr y_range \<Rightarrow>
                 (let total_points = resolution * resolution in
                  case analysis_grid minimize durations resolution (enumerate 0 x_range)
                         y_range (self, [], []) of
                    Inl e \<Rightarrow> Inl e
                  | Inr (self', reachable, solver_calls) \<Rightarrow>
                      if total_points = 0 then Inl ZeroDivisionError
                      else Inr (\<lparr>reachable_points = reachable,
                                 reachability_ratio =
                                   real (length reachable) / real_of_int total_points,
                                 total_points_tested = total_points,
                                 workspace_area =
                                   real (length reachable)
                                     * (2 * mr / real_of_int resolution)\<^sup>2,
                                 max_reach = mr\<rparr>,
                                self', solver_calls)))))"

subsection \<open>The revolute arm: \<^verbatim>\<open>robot_arm.py\<close>\<close>

record RoboticArm =
  link_lengths :: "real list"
  num_joints_b :: nat
  joint_angles :: "real list"
  joint_limits :: "(real \<times> real) list"

text \<open>\<^verbatim>\<open>RoboticArm.__init__\<close> has no statement that raises: the result is always \<open>Inr\<close>.\<close>

definition RoboticArm_init ::
  "real list \<Rightarrow> (real \<times> real) list option \<Rightarrow> py_error + RoboticArm" where
  "RoboticArm_init lls joint_limits_arg =
     Inr \<lparr>link_lengths = lls, num_joints_b = length lls,
          joint_angles = replicate (length lls) 0,
          joint_limits = (case joint_limits_arg of
                            None \<Rightarrow> replicate (length lls) (- pi, pi)
                          | Some l \<Rightarrow> l)\<rparr>"

text \<open>The loop of \<^verbatim>\<open>forward_kinematics\<close> over \<^verbatim>\<open>range(self.num_joints)\<close>, writing row
  \<open>i + 1\<close> of the array \<^verbatim>\<open>joint_positions\<close>; an index beyond an array raises IndexError.\<close>

fun fk_loop_b :: "real list \<Rightarrow> real list \<Rightarrow> nat list \<Rightarrow> point list \<Rightarrow> py_error + point list" where
  "fk_loop_b lls cumulative_angles [] joint_positions = Inr joint_positions"
| "fk_loop_b lls cumulative_angles (i # rest) joint_positions =
     (if i < length lls \<and> i < length cumulative_angles \<and> i + 1 < length joint_positions
      then fk_loop_b lls cumulative_angles rest
             (joint_positions[i + 1 :=
                (fst (joint_positions ! i) + lls ! i * cos (cumulative_angles ! i),
                 snd (joint_positions ! i) + lls ! i * sin (cumulative_angles ! i))])
      else Inl IndexError)"

definition forward_kinematics_b ::
  "RoboticArm \<Rightarrow> real list option \<Rightarrow> py_error + point \<times> point list" where
  "forward_kinematics_b self joint_angles_arg =
     (let angles = (case joint_angles_arg of None \<Rightarrow> joint_angles self | Some a \<Rightarrow> a);
          cumulative_angles = cumsum angles;
          joint_positions = replicate (num_joints_b self + 1) (0, 0)
      in case fk_loop_b (link_lengths self) cumulative_angles [0..<num_joints_b self]
                joint_positions of
           Inl e \<Rightarrow> Inl e
         | Inr ps \<Rightarrow> Inr (last ps, ps))"

definition objective :: "RoboticArm \<Rightarrow> real \<Rightarrow> real \<Rightarrow> real list \<Rightarrow> py_error + real" where
  "objective self target_x target_y angles =
     (case forward_kinematics_b self (Some angles) of
        Inl e \<Rightarrow> Inl e
      | Inr (pos, ps) \<Rightarrow> Inr ((fst pos - target_x)\<^sup>2 + (snd pos - target_y)\<^sup>2))"

text \<open>\<^verbatim>\<open>constraint\<close> enumerates \<^verbatim>\<open>self.joint_limits\<close> and reads \<^verbatim>\<open>angles[i]\<close>.\<close>

fun constraint_loop ::
  "real list \<Rightarrow> nat \<Rightarrow> (real \<times> real) list \<Rightarrow> real list \<Rightarrow> py_error + real list" where
  "constraint_loop angles i [] constraints = Inr constraints"
| "constraint_loop angles i ((min_angle, max_angle) # rest) constraints =
     (if i < length angles
      then constraint_loop angles (i + 1) rest
             (constraints @ [angles ! i - min_angle, max_angle - angles ! i])
      else Inl IndexError)"

definition constraint :: "RoboticArm \<Rightarrow> real list \<Rightarrow> py_error + real list" where
  "constraint self angles = constraint_loop angles 0 (joint_limits self) []"

type_synonym minimizer_b =
  "(real list \<Rightarrow> py_error + real) \<Rightarrow> real list \<Rightarrow> (real list \<Rightarrow> py_error + real list)
     \<Rightarrow> py_error + OptimizeResult"

text \<open>\<^verbatim>\<open>RoboticArm.inverse_kinematics\<close>: it assigns nothing on \<^verbatim>\<open>self\<close>, so it returns
  no new arm. An exception raised inside the optimizer (by a callback) propagates.\<close>

definition inverse_kinematics_b ::
  "minimizer_b \<Rightarrow> RoboticArm \<Rightarrow> real \<Rightarrow> real \<Rightarrow> real list option
     \<Rightarrow> py_error + real list option" where
  "inverse_kinematics_b minimize self target_x target_y initial_guess_arg =
     (let initial_guess =
            (case initial_guess_arg of None \<Rightarrow> joint_angles self | Some g \<Rightarrow> g)
      in case minimize (objective self target_x target_y) initial_guess (constraint self) of
           Inl e \<Rightarrow> Inl e
         | Inr result \<Rightarrow> Inr (if res_success result then Some (res_x result) else None))"

text \<open>\<^verbatim>\<open>is_reachable\<close>: \<^verbatim>\<open>link_lengths[:-1]\<close> is \<open>butlast\<close>, and \<^verbatim>\<open>link_lengths[-1]\<close>
  raises IndexError on an arm without links.\<close>

definition is_reachable :: "RoboticArm \<Rightarrow> real \<Rightarrow> real \<Rightarrow> py_error + bool" where
  "is_reachable self xv yv =
     (let distance = sqrt (xv\<^sup>2 + yv\<^sup>2);
          mx = sum_list (link_lengths self)
      in if link_lengths self = [] then Inl IndexError
         else (let mn = \<bar>sum_list (butlast (link_lengths self)) - last (link_lengths self)\<bar>
               in Inr (mn \<le> distance \<and> distance \<le> mx)))"

text \<open>The loops of \<^verbatim>\<open>get_workspace\<close>. The state is \<^verbatim>\<open>reachable_points\<close>, \<^verbatim>\<open>all_points\<close>
  and, as for the 4-DOF arm, the targets the solver has been called on.\<close>

fun workspace_row ::
  "minimizer_b \<Rightarrow> RoboticArm \<Rightarrow> real \<Rightarrow> real list \<Rightarrow> point list \<times> point list \<times> point list
     \<Rightarrow> py_error + point list \<times> point list \<times> point list" where
  "workspace_row minimize self xv [] st = Inr st"
| "workspace_row minimize self xv (yv # rest) (reachable, all_points, solver_calls) =
     (let all_points' = all_points @ [(xv, yv)] in
      case is_reachable self xv yv of
        Inl e \<Rightarrow> Inl e
      | Inr ok \<Rightarrow>
          if ok then
            (case inverse_kinematics_b minimize self xv yv None of
               Inl e \<Rightarrow> Inl e
             | Inr angles \<Rightarrow>
                 workspace_row minimize self xv rest
                   (if angles \<noteq> None then reachable @ [(xv, yv)] else reachable,
                    all_points', solver_calls @ [(xv, yv)]))
          else workspace_row minimize self xv rest (reachable, all_points', solver_calls))"

fun workspace_grid ::
  "minimizer_b \<Rightarrow> RoboticArm \<Rightarrow> real list \<Rightarrow> real list
     \<Rightarrow> point list \<times> point list \<times> point list
     \<Rightarrow> py_error + point list \<times> point list \<times> point list" where
  "workspace_grid minimize self [] y_range st = Inr st"
| "workspace_grid minimize self (xv # rest) y_range st =
     (case workspace_row minimize self xv y_range st of
        Inl e \<Rightarrow> Inl e
      | Inr st' \<Rightarrow> workspace_grid minimize self rest y_range st')"

definition get_workspace ::
  "minimizer_b \<Rightarrow> RoboticArm \<Rightarrow> int \<Rightarrow> py_error + point list \<times> point list \<times> point list" where
  "get_workspace minimize self resolution =
     (let mx = sum_list (link_lengths self) in
      case linspace (- mx) mx resolution of
        Inl e \<Rightarrow> Inl e
      | Inr x_range \<Rightarrow>
          (case linspace (- mx) mx resolution of
             Inl e \<Rightarrow> Inl e
           | Inr y_range \<Rightarrow> workspace_grid minimize self x_range y_range ([], [], [])))"

text \<open>\<^verbatim>\<open>set_joint_angles\<close> stores the array without any test.\<close>

definition set_joint_angles :: "RoboticArm \<Rightarrow> real list \<Rightarrow> RoboticArm" where
  "set_joint_angles self angles = self\<lparr>joint_angles := angles\<rparr>"

text \<open>The area estimate of \<^verbatim>\<open>WorkspaceVisualizer.analyze_workspace_metrics\<close>, computed
  after the two theoretical reach bounds, from the two arrays \<^verbatim>\<open>get_workspace\<close> returned.\<close>

definition analyze_workspace_metrics ::
  "RoboticArm \<Rightarrow> point list \<Rightarrow> point list \<Rightarrow> py_error + real" where
  "analyze_workspace_metrics robot reachable all_points =
     (let max_reach_theoretical = sum_list (link_lengths robot)
      in if link_lengths robot = [] then Inl IndexError
         else if length reachable > 0
           then Inr (real (length reachable)
                      * (2 * max_reach_theoretical / sqrt (real (length all_points)))\<^sup>2)
           else Inr 0)"

subsection \<open>Notions used to state the properties\<close>




text \<open>The range test of \<^verbatim>\<open>Joint.set_value\<close>, as a predicate.\<close>

definition in_limits :: "Joint \<Rightarrow> real \<Rightarrow> bool" where
  "in_limits j v = (min_limit j \<le> v \<and> v \<le> max_limit j)"

text \<open>Two states of a 4-DOF arm that differ at most in the performance counters.\<close>

definition same_config :: "RoboticArm4DOF \<Rightarrow> RoboticArm4DOF \<Rightarrow> bool" where
  "same_config s s' =
     (joints s' = joints s \<and> joint_values s' = joint_values s \<and>
      base_links s' = base_links s \<and> base_position s' = base_position s \<and>
      num_joints s' = num_joints s)"

text \<open>The verdict of the oracle and of the solver on a point, and the grid of a sampler
  with reach \<open>mx\<close> and resolution \<open>n\<close>: the product of the \<^verbatim>\<open>linspace\<close> values with
  themselves, \<open>x\<close> outermost.\<close>

definition oracle_accepts :: "RoboticArm \<Rightarrow> point \<Rightarrow> bool" where
  "oracle_accepts arm p = (is_reachable arm (fst p) (snd p) = Inr True)"

definition solver_finds :: "minimizer_b \<Rightarrow> RoboticArm \<Rightarrow> point \<Rightarrow> bool" where
  "solver_finds minimize arm p =
     (case inverse_kinematics_b minimize arm (fst p) (snd p) None of
        Inl e \<Rightarrow> False
      | Inr angles \<Rightarrow> angles \<noteq> None)"

definition solver_succeeds :: "minimizer \<Rightarrow> RoboticArm4DOF \<Rightarrow> point \<Rightarrow> bool" where
  "solver_succeeds minimize self p = fst (fst (inverse_kinematics minimize self p None 0))"

definition grid_points :: "real \<Rightarrow> int \<Rightarrow> point list" where
  "grid_points mx n =
     (case linspace (- mx) mx n of Inl e \<Rightarrow> [] | Inr vs \<Rightarrow> List.product vs vs)"

text \<open>The lower reach bound in the words of the specification: the absolute difference
  between the largest link length and the sum of all the other link lengths.\<close>

definition spec_min_reach :: "real list \<Rightarrow> real" where
  "spec_min_reach lls = \<bar>Max (set lls) - (sum_list lls - Max (set lls))\<bar>"

text \<open>The oracle in the words of the specification (section 4.2), for given reach
  bounds.\<close>

definition spec_oracle :: "real \<Rightarrow> real \<Rightarrow> point \<Rightarrow> bool" where
  "spec_oracle mn mx p = (mn \<le> pnorm p \<and> pnorm p \<le> mx)"



subsection \<open>Concrete arms and optimizer behaviours\<close>

text \<open>\<^verbatim>\<open>create_4dof_arm_configuration\<close> of \<^verbatim>\<open>robotic_arm_4dof.py\<close>, the arm it returns, and
  the arm \<^verbatim>\<open>RoboticArm([3.0, 2.5, 1.5])\<close> of the demonstrations.\<close>

definition create_4dof_arm_configuration :: "py_error + RoboticArm4DOF" where
  "create_4dof_arm_configuration =
     RoboticArm4DOF_init [2.0, 1.5, 0.0, 1.0]
       [''revolute'', ''revolute'', ''prismatic'', ''revolute'']
       [(- pi, pi), (- pi / 2, pi / 2), (0.0, 2.0), (- pi, pi)]"

definition arm4 :: RoboticArm4DOF where
  "arm4 =
     \<lparr>base_links = [2.0, 1.5, 0.0, 1.0], num_joints = 4,
      joints = [Joint_init ''revolute'' (- pi, pi) 0,
                Joint_init ''revolute'' (- pi / 2, pi / 2) 0,
                Joint_init ''prismatic'' (0.0, 2.0) 0,
                Joint_init ''revolute'' (- pi, pi) 0],
      joint_values = [0, 0, 0, 0], base_position = (0, 0),
      fk_calculations = 0, ik_calculations = 0, calculation_times = []\<rparr>"

definition arm3 :: RoboticArm where
  "arm3 = \<lparr>link_lengths = [3.0, 2.5, 1.5], num_joints_b = 3,
            joint_angles = [0, 0, 0], joint_limits = [(- pi, pi), (- pi, pi), (- pi, pi)]\<rparr>"

text \<open>A revolute arm built with one link and two joint limits.\<close>

definition arm_two_limits :: RoboticArm where
  "arm_two_limits =
     \<lparr>link_lengths = [1], num_joints_b = 1, joint_angles = [0],
      joint_limits = [(- 1, 1), (- 1, 1)]\<rparr>"

text \<open>A 4-DOF arm built from an empty list of link lengths.\<close>

definition arm_no_links :: RoboticArm4DOF where
  "arm_no_links = arm4\<lparr>base_links := []\<rparr>"

text \<open>Behaviours an optimizer can show, used at concrete inputs: giving up at the
  initial guess, and reporting convergence at a given point. Each reports the objective at
  the point it returns. Those for the revolute arm evaluate the constraints at the
  initial guess first, as SLSQP does, and let an exception of a callback through.\<close>

definition minimize_gives_up :: minimizer where
  "minimize_gives_up obj x0 cons =
     \<lparr>res_success = False, res_fun = obj x0, res_x = x0, res_eval_times = [0]\<rparr>"

definition minimize_converges_to :: "real list \<Rightarrow> minimizer" where
  "minimize_converges_to xs obj x0 cons =
     \<lparr>res_success = True, res_fun = obj xs, res_x = xs, res_eval_times = [0]\<rparr>"

definition minimize_b_gives_up :: minimizer_b where
  "minimize_b_gives_up obj x0 cons =
     (case cons x0 of
        Inl e \<Rightarrow> Inl e
      | Inr c \<Rightarrow>
          (case obj x0 of
             Inl e \<Rightarrow> Inl e
           | Inr f \<Rightarrow> Inr \<lparr>res_success = False, res_fun = f, res_x = x0, res_eval_times = [0]\<rparr>))"


text \<open>Solver calls that each measure a duration of 0.\<close>

definition no_durations :: "nat \<Rightarrow> real" where
  "no_durations k = 0"

section \<open>Properties\<close>

subsection \<open>Forward kinematics\<close>








lemma upt4: "[0..<4] = [0, 1, 2, 3]"
  by (simp add: upt_rec)

lemma create_4dof_arm_configuration_eq: "create_4dof_arm_configuration = Inr arm4"
  by (simp add: create_4dof_arm_configuration_def RoboticArm4DOF_init_def upt4 arm4_def
      Joint_init_def)

lemma RoboticArm_init_arm3: "RoboticArm_init [3.0, 2.5, 1.5] None = Inr arm3"
  by (simp add: RoboticArm_init_def arm3_def numeral_3_eq_3)





subsection \<open>Inverse kinematics\<close>

lemma set_values_loop_eq:
  "set_values_loop js vs valid =
     (map (\<lambda>jv. fst (set_value (fst jv) (snd jv))) (zip js vs) @ drop (length vs) js,
      valid \<and> list_all (\<lambda>jv. in_limits (fst jv) (snd jv)) (zip js vs))"
proof (induction js arbitrary: vs valid)
  case Nil
  then show ?case by simp
next
  case (Cons j js)
  show ?case
  proof (cases vs)
    case Nil
    then show ?thesis by simp
  next
    case (Cons v vs')
    then show ?thesis
      using Cons.IH[of vs' "if \<not> snd (set_value j v) then False else valid"]
      by (auto simp add: set_value_def in_limits_def case_prod_beta)
  qed
qed

lemma set_joint_configuration_accepts:
  assumes "length vals = length (joints self)"
    and "list_all2 in_limits (joints self) vals"
  shows "snd (set_joint_configuration self vals) \<and>
         joint_values (fst (set_joint_configuration self vals)) = vals \<and>
         map jvalue (joints (fst (set_joint_configuration self vals))) = vals"
proof -
  have all: "list_all (\<lambda>jv. in_limits (fst jv) (snd jv)) (zip (joints self) vals)"
    using assms(2) by (auto simp add: list_all2_iff list_all_iff)
  have "map jvalue (map (\<lambda>jv. fst (set_value (fst jv) (snd jv))) (zip js vs)) = vs"
    if "list_all2 in_limits js vs" for js vs
    using that by (induction rule: list_all2_induct) (simp_all add: set_value_def in_limits_def)
  then have "map jvalue (map (\<lambda>jv. fst (set_value (fst jv) (snd jv))) (zip (joints self) vals)) = vals"
    using assms(2) by blast
  then show ?thesis
    using all assms(1) by (simp add: set_joint_configuration_def set_values_loop_eq)
qed





lemma upt3: "[0..<3] = [0, 1, 2]"
  by (simp add: upt_rec)

lemma fk_arm3_zero:
  "forward_kinematics_b arm3 (Some [0, 0, 0]) = Inr ((7, 0), [(0, 0), (3, 0), (5.5, 0), (7, 0)])"
  by (simp add: forward_kinematics_b_def arm3_def cumsum_def upt3 numeral_3_eq_3)

lemma constraint_arm3_zero:
  "constraint arm3 [0, 0, 0] = Inr [pi, pi, pi, pi, pi, pi]"
  by (simp add: constraint_def arm3_def)


subsection \<open>The setters\<close>

text \<open>
  Claim C5, as stated, fails. On the 4-DOF arm a vector with one value out of range is
  rejected, and yet the joints whose values were in range have taken them: the stored
  value of joint 0 goes from 0 to 1 while \<^verbatim>\<open>joint_values\<close> stays. On the revolute arm
  the setter stores an angle of 10 radians, outside the declared limits \<open>\<plusminus>\<pi>\<close>.
\<close>

theorem set_joint_configuration_not_atomic:
  "snd (set_joint_configuration arm4 [1, 0, 5, 0]) = False \<and>
   map jvalue (joints arm4) = [0, 0, 0, 0] \<and>
   map jvalue (joints (fst (set_joint_configuration arm4 [1, 0, 5, 0]))) = [1, 0, 0, 0] \<and>
   joint_values (fst (set_joint_configuration arm4 [1, 0, 5, 0])) = [0, 0, 0, 0] \<and>
   joint_limits arm3 ! 0 = (- pi, pi) \<and> pi < 10 \<and>
   joint_angles (set_joint_angles arm3 [10, 0, 0]) = [10, 0, 0]"
proof -
  have "pi < 10" "2 \<le> pi" using pi_less_4 pi_ge_two by simp_all
  then show ?thesis
    by (simp add: set_joint_configuration_def set_value_def arm4_def Joint_init_def
        set_joint_angles_def arm3_def)
qed

text \<open>
  Claim C5, amended. \<^verbatim>\<open>set_joint_configuration\<close> returns True exactly when every
  supplied value lies within the limits of its joint; then every joint's value and the
  vector \<^verbatim>\<open>joint_values\<close> are the supplied values. Otherwise it returns False, a single
  flag that names no joint, and \<^verbatim>\<open>joint_values\<close> is as before the call.
  \<^verbatim>\<open>set_joint_angles\<close> of the revolute arm stores any vector.
\<close>

theorem set_joint_configuration_commit:
  "(snd (set_joint_configuration self vals) \<longleftrightarrow>
      list_all (\<lambda>jv. in_limits (fst jv) (snd jv)) (zip (joints self) vals)) \<and>
   (length vals = length (joints self) \<and> list_all2 in_limits (joints self) vals \<longrightarrow>
      snd (set_joint_configuration self vals) \<and>
      joint_values (fst (set_joint_configuration self vals)) = vals \<and>
      map jvalue (joints (fst (set_joint_configuration self vals))) = vals) \<and>
   (\<not> snd (set_joint_configuration self vals) \<longrightarrow>
      joint_values (fst (set_joint_configuration self vals)) = joint_values self) \<and>
   joint_angles (set_joint_angles arm angles) = angles"
proof -
  have a: "snd (set_joint_configuration self vals) \<longleftrightarrow>
      list_all (\<lambda>jv. in_limits (fst jv) (snd jv)) (zip (joints self) vals)"
    by (simp add: set_joint_configuration_def set_values_loop_eq)
  have b: "\<not> snd (set_joint_configuration self vals) \<longrightarrow>
      joint_values (fst (set_joint_configuration self vals)) = joint_values self"
    by (simp add: set_joint_configuration_def set_values_loop_eq)
  show ?thesis
    using a b set_joint_configuration_accepts[of vals self]
    by (simp add: set_joint_angles_def)
qed

theorem set_joint_configuration_commit_witness:
  "length [1, 0, 1, 0 :: real] = length (joints arm4) \<and>
   list_all2 in_limits (joints arm4) [1, 0, 1, 0] \<and>
   snd (set_joint_configuration arm4 [1, 0, 1, 0]) \<and>
   joint_values (fst (set_joint_configuration arm4 [1, 0, 1, 0])) = [1, 0, 1, 0] \<and>
   map jvalue (joints (fst (set_joint_configuration arm4 [1, 0, 1, 0]))) = [1, 0, 1, 0] \<and>
   snd (set_joint_configuration arm4 [1, 0, 5, 0]) = False \<and>
   joint_values (fst (set_joint_configuration arm4 [1, 0, 5, 0])) = joint_values arm4"
proof -
  have l: "length [1, 0, 1, 0 :: real] = length (joints arm4)" by (simp add: arm4_def)
  have pi1: "1 \<le> pi" using pi_ge_two by simp
  have lim: "list_all2 in_limits (joints arm4) [1, 0, 1, 0]"
    using pi1 by (simp add: arm4_def Joint_init_def in_limits_def)
  have bad: "\<not> list_all (\<lambda>jv. in_limits (fst jv) (snd jv)) (zip (joints arm4) [1, 0, 5, 0])"
    by (simp add: arm4_def Joint_init_def in_limits_def)
  show ?thesis
    using set_joint_configuration_commit[of arm4 "[1, 0, 1, 0]" arm3 "[]"]
      set_joint_configuration_commit[of arm4 "[1, 0, 5, 0]" arm3 "[]"] l lim bad
    by blast
qed

subsection \<open>Construction\<close>

lemma init_joints_upt:
  "init_joints [m..<n] jts lims acc =
     (if n \<le> length jts \<and> n \<le> length lims \<or> n \<le> m
      then Inr (acc @ map (\<lambda>i. Joint_init (jts ! i) (lims ! i) 0) [m..<n])
      else Inl IndexError)"
proof (induction "n - m" arbitrary: m acc)
  case 0
  then show ?case by simp
next
  case (Suc d)
  then have lt: "m < n" and d: "d = n - Suc m" by simp_all
  show ?case
    using Suc.hyps(1)[OF d, of "acc @ [Joint_init (jts ! m) (lims ! m) 0]"] lt
    by (auto simp add: upt_rec[of m n])
qed

text \<open>
  Claim C9, as stated, fails. The revolute-arm constructor accepts one link with two
  joint limits, and the mismatch surfaces as an IndexError in the first inverse-kinematics
  call, raised by the constraint callback. The 4-DOF constructor accepts an empty list of
  link lengths with four joints.
\<close>

theorem constructors_accept_mismatched_lists:
  "RoboticArm_init [1] (Some [(- 1, 1), (- 1, 1)]) = Inr arm_two_limits \<and>
   inverse_kinematics_b minimize_b_gives_up arm_two_limits 1 0 None = Inl IndexError \<and>
   RoboticArm4DOF_init []
       [''revolute'', ''revolute'', ''prismatic'', ''revolute'']
       [(- pi, pi), (- pi / 2, pi / 2), (0.0, 2.0), (- pi, pi)] = Inr arm_no_links"
  by (simp add: RoboticArm_init_def arm_two_limits_def inverse_kinematics_b_def
      minimize_b_gives_up_def constraint_def RoboticArm4DOF_init_def upt4 arm_no_links_def
      arm4_def Joint_init_def)

text \<open>
  Claim C9, amended. The 4-DOF constructor fails, with an IndexError raised in the
  constructor, exactly when the list of joint kinds or the list of joint limits has
  fewer than four entries; longer lists and a list of link lengths of any length are
  accepted. The revolute-arm constructor accepts every list of joint limits.
\<close>

theorem constructor_failure_iff:
  "(RoboticArm4DOF_init links jts lims = Inl IndexError \<longleftrightarrow>
      length jts < 4 \<or> length lims < 4) \<and>
   (isl (RoboticArm4DOF_init links jts lims) \<longleftrightarrow> length jts < 4 \<or> length lims < 4) \<and>
   \<not> isl (RoboticArm_init lls joint_limits_arg)"
  using init_joints_upt[of 0 4 jts lims "[]"]
  by (auto simp add: RoboticArm4DOF_init_def RoboticArm_init_def)

theorem constructor_failure_iff_witness:
  "RoboticArm4DOF_init [2, 1.5, 0, 1] [''revolute'', ''revolute'', ''prismatic'']
      [(- pi, pi), (- pi / 2, pi / 2), (0.0, 2.0), (- pi, pi)] = Inl IndexError \<and>
   \<not> isl (RoboticArm4DOF_init [] [''revolute'', ''revolute'', ''prismatic'', ''revolute'', ''revolute'']
      [(- pi, pi), (- pi / 2, pi / 2), (0.0, 2.0), (- pi, pi)]) \<and>
   \<not> isl (RoboticArm_init [1] (Some []))"
  using constructor_failure_iff[of "[2, 1.5, 0, 1]" "[''revolute'', ''revolute'', ''prismatic'']"
          "[(- pi, pi), (- pi / 2, pi / 2), (0.0, 2.0), (- pi, pi)]" "[1]" "Some []"]
        constructor_failure_iff[of "[]"
          "[''revolute'', ''revolute'', ''prismatic'', ''revolute'', ''revolute'']"
          "[(- pi, pi), (- pi / 2, pi / 2), (0.0, 2.0), (- pi, pi)]" "[1]" "Some []"]
  by simp

subsection \<open>Reachability\<close>

text \<open>
  Claim C2, as stated, fails. For the links 3, 2.5, 1.5 the bound of the claim is
  \<open>\<bar>3 - (2.5 + 1.5)\<bar> = 1\<close>, so the point (2, 0) lies between the claimed bounds 1 and 7;
  \<^verbatim>\<open>is_reachable\<close> returns False on it, its lower bound being \<open>\<bar>(3 + 2.5) - 1.5\<bar> = 4\<close>.
\<close>

theorem is_reachable_not_largest_link_bound:
  "is_reachable arm3 2 0 = Inr False \<and>
   spec_min_reach (link_lengths arm3) \<le> sqrt (2\<^sup>2 + 0\<^sup>2) \<and>
   sqrt (2\<^sup>2 + 0\<^sup>2) \<le> sum_list (link_lengths arm3)"
  by (simp add: is_reachable_def arm3_def spec_min_reach_def)

text \<open>
  Claim C2, amended. On an arm with at least one link, \<^verbatim>\<open>is_reachable\<close> returns true if
  and only if \<open>min_reach \<le> sqrt (x\<^sup>2 + y\<^sup>2) \<le> max_reach\<close>, where \<open>max_reach\<close> is the sum of all
  link lengths and \<open>min_reach\<close> is the absolute difference between the sum of all links but
  the last and the last link. That is the bound of the claim whenever the last link is a
  longest one.
\<close>

theorem is_reachable_iff:
  assumes "link_lengths self \<noteq> []"
  shows "is_reachable self xv yv =
           Inr (\<bar>sum_list (butlast (link_lengths self)) - last (link_lengths self)\<bar>
                  \<le> sqrt (xv\<^sup>2 + yv\<^sup>2) \<and>
                sqrt (xv\<^sup>2 + yv\<^sup>2) \<le> sum_list (link_lengths self)) \<and>
         (last (link_lengths self) = Max (set (link_lengths self)) \<longrightarrow>
            is_reachable self xv yv =
              Inr (spec_min_reach (link_lengths self) \<le> sqrt (xv\<^sup>2 + yv\<^sup>2) \<and>
                   sqrt (xv\<^sup>2 + yv\<^sup>2) \<le> sum_list (link_lengths self)))"
proof -
  have "sum_list (link_lengths self) =
          sum_list (butlast (link_lengths self)) + last (link_lengths self)"
    using assms by (metis append_butlast_last_id sum_list.append sum_list.Cons sum_list.Nil add.right_neutral)
  then show ?thesis
    using assms by (simp add: is_reachable_def Let_def spec_min_reach_def abs_minus_commute)
qed

theorem is_reachable_iff_witness:
  "link_lengths arm3 \<noteq> [] \<and>
   is_reachable arm3 4 2 = Inr True \<and> is_reachable arm3 0 10 = Inr False"
proof -
  have h: "link_lengths arm3 \<noteq> []" by (simp add: arm3_def)
  have s1: "4 \<le> sqrt (4\<^sup>2 + 2\<^sup>2)" by (rule real_le_rsqrt) simp
  have s2: "sqrt (4\<^sup>2 + 2\<^sup>2) \<le> 7" by (rule real_le_lsqrt) simp_all
  show ?thesis
    using is_reachable_iff[OF h, of 4 2] is_reachable_iff[OF h, of 0 10] h s1 s2
    by (simp add: arm3_def)
qed

subsection \<open>Workspace sampling\<close>

lemma linspace_returns: "0 \<le> n \<Longrightarrow> \<exists>vs. linspace a b n = Inr vs"
  by (simp add: linspace_def)

lemma workspace_row_eq:
  assumes "link_lengths arm \<noteq> []"
    and "\<forall>yv\<in>set ys. \<not> isl (inverse_kinematics_b minimize arm xv yv None)"
  shows "workspace_row minimize arm xv ys (reach, tested, calls) =
           Inr (reach @ filter (solver_finds minimize arm)
                          (filter (oracle_accepts arm) (map (Pair xv) ys)),
                tested @ map (Pair xv) ys,
                calls @ filter (oracle_accepts arm) (map (Pair xv) ys))"
  using assms(2)
proof (induction ys arbitrary: reach tested calls)
  case Nil
  then show ?case by simp
next
  case (Cons yv ys)
  obtain b where b: "is_reachable arm xv yv = Inr b"
    using assms(1) by (simp add: is_reachable_def Let_def)
  obtain a where a: "inverse_kinematics_b minimize arm xv yv None = Inr a"
    using Cons.prems by (cases "inverse_kinematics_b minimize arm xv yv None") simp_all
  have rest: "\<forall>yv\<in>set ys. \<not> isl (inverse_kinematics_b minimize arm xv yv None)"
    using Cons.prems by simp
  show ?case
    using b a Cons.IH[OF rest]
    by (cases b) (simp_all add: oracle_accepts_def solver_finds_def)
qed

lemma workspace_grid_eq:
  assumes "link_lengths arm \<noteq> []"
    and "\<forall>p\<in>set (List.product xs ys). \<not> isl (inverse_kinematics_b minimize arm (fst p) (snd p) None)"
  shows "workspace_grid minimize arm xs ys (reach, tested, calls) =
           Inr (reach @ filter (solver_finds minimize arm)
                          (filter (oracle_accepts arm) (List.product xs ys)),
                tested @ List.product xs ys,
                calls @ filter (oracle_accepts arm) (List.product xs ys))"
  using assms(2)
proof (induction xs arbitrary: reach tested calls)
  case Nil
  then show ?case by simp
next
  case (Cons xv xs)
  have row: "\<forall>yv\<in>set ys. \<not> isl (inverse_kinematics_b minimize arm xv yv None)"
  proof
    fix yv assume "yv \<in> set ys"
    then have "(xv, yv) \<in> set (List.product (xv # xs) ys)" by simp
    then show "\<not> isl (inverse_kinematics_b minimize arm xv yv None)"
      using Cons.prems by fastforce
  qed
  have rest: "\<forall>p\<in>set (List.product xs ys).
                \<not> isl (inverse_kinematics_b minimize arm (fst p) (snd p) None)"
    using Cons.prems by auto
  show ?case
    by (simp add: workspace_row_eq[OF assms(1) row] Cons.IH[OF rest])
qed

lemma get_workspace_eq:
  assumes "link_lengths arm \<noteq> []" and "0 \<le> resolution"
    and "\<forall>p\<in>set (grid_points (sum_list (link_lengths arm)) resolution).
           \<not> isl (inverse_kinematics_b minimize arm (fst p) (snd p) None)"
  shows "get_workspace minimize arm resolution =
           Inr (filter (solver_finds minimize arm)
                  (filter (oracle_accepts arm)
                     (grid_points (sum_list (link_lengths arm)) resolution)),
                grid_points (sum_list (link_lengths arm)) resolution,
                filter (oracle_accepts arm)
                  (grid_points (sum_list (link_lengths arm)) resolution))"
proof -
  let ?mx = "sum_list (link_lengths arm)"
  obtain vs where vs: "linspace (- ?mx) ?mx resolution = Inr vs"
    using linspace_returns[OF assms(2)] by blast
  then have g: "grid_points ?mx resolution = List.product vs vs"
    by (simp add: grid_points_def)
  show ?thesis
    using workspace_grid_eq[OF assms(1), of vs vs minimize "[]" "[]" "[]"] assms(3)
    by (simp add: get_workspace_def Let_def vs g)
qed

lemma same_config_refl: "same_config s s"
  by (simp add: same_config_def)

lemma inverse_kinematics_same_config:
  assumes "same_config s s'"
  shows "fst (inverse_kinematics minimize s' p g e) = fst (inverse_kinematics minimize s p g e')"
    and "same_config s (snd (inverse_kinematics minimize s' p g e))"
proof -
  have "objective_function s' p = objective_function s p"
    using assms by (simp add: fun_eq_iff objective_function_def fk_result_def same_config_def)
  moreover have "constraint_function s' = constraint_function s"
    using assms by (simp add: fun_eq_iff constraint_function_def same_config_def)
  moreover have "joint_values s' = joint_values s"
    using assms by (simp add: same_config_def)
  ultimately show "fst (inverse_kinematics minimize s' p g e) =
                   fst (inverse_kinematics minimize s p g e')"
    by (cases g) (simp_all add: inverse_kinematics_def Let_def)
  show "same_config s (snd (inverse_kinematics minimize s' p g e))"
    using assms by (simp add: inverse_kinematics_def Let_def same_config_def)
qed

lemma analysis_row_eq:
  assumes "resolution * resolution div 10 \<noteq> 0" and "same_config s0 s"
  shows "\<exists>s'. analysis_row minimize durations resolution i xv jys (s, reach, calls) =
                Inr (s', reach @ filter (solver_succeeds minimize s0)
                                   (map (\<lambda>jy. (xv, snd jy)) jys),
                     calls @ map (\<lambda>jy. (xv, snd jy)) jys) \<and>
              same_config s0 s'"
  using assms(2)
proof (induction jys arbitrary: s reach calls)
  case Nil
  then show ?case by simp
next
  case (Cons jy jys)
  obtain j yv where jy: "jy = (j, yv)" by (cases jy)
  let ?k = "nat (int i * resolution + int j)"
  let ?r = "inverse_kinematics minimize s (xv, yv) None (durations ?k)"
  have ok: "fst (fst ?r) = solver_succeeds minimize s0 (xv, yv)"
    using inverse_kinematics_same_config(1)[OF Cons.prems, of minimize "(xv, yv)" None "durations ?k" 0]
    by (simp add: solver_succeeds_def)
  have sc: "same_config s0 (snd ?r)"
    by (rule inverse_kinematics_same_config(2)[OF Cons.prems])
  obtain s' where s': "analysis_row minimize durations resolution i xv jys
                  (snd ?r, if fst (fst ?r) then reach @ [(xv, yv)] else reach,
                   calls @ [(xv, yv)]) =
                Inr (s', (if fst (fst ?r) then reach @ [(xv, yv)] else reach)
                           @ filter (solver_succeeds minimize s0)
                                   (map (\<lambda>jy. (xv, snd jy)) jys),
                     (calls @ [(xv, yv)]) @ map (\<lambda>jy. (xv, snd jy)) jys)"
      and sc': "same_config s0 s'"
    using Cons.IH[OF sc] by blast
  show ?case
    using s' sc' assms(1) ok by (auto simp add: jy Let_def)
qed

lemma analysis_grid_eq:
  assumes "resolution * resolution div 10 \<noteq> 0" and "same_config s0 s"
  shows "\<exists>s'. analysis_grid minimize durations resolution ixs ys (s, reach, calls) =
                Inr (s', reach @ filter (solver_succeeds minimize s0)
                                   (List.product (map snd ixs) ys),
                     calls @ List.product (map snd ixs) ys) \<and>
              same_config s0 s'"
  using assms(2)
proof (induction ixs arbitrary: s reach calls)
  case Nil
  then show ?case by simp
next
  case (Cons ix ixs)
  obtain i xv where ix: "ix = (i, xv)" by (cases ix)
  have m: "map (\<lambda>jy. (xv, snd jy)) (enumerate 0 ys) = map (Pair xv) ys"
    by (simp add: enumerate_eq_zip map_zip_map2 flip: map_map[of "Pair xv" snd, unfolded comp_def])
  obtain s1 where r: "analysis_row minimize durations resolution i xv (enumerate 0 ys)
                        (s, reach, calls) =
                Inr (s1, reach @ filter (solver_succeeds minimize s0) (map (Pair xv) ys),
                     calls @ map (Pair xv) ys)"
      and sc: "same_config s0 s1"
    using analysis_row_eq[OF assms(1) Cons.prems, where minimize = minimize
            and durations = durations and i = i and xv = xv and jys = "enumerate 0 ys"
            and reach = reach and calls = calls]
    unfolding m by blast
  show ?case
    using Cons.IH[OF sc, of "reach @ filter (solver_succeeds minimize s0) (map (Pair xv) ys)"
                    "calls @ map (Pair xv) ys"] r
    by (auto simp add: ix)
qed

lemma py_max_eq: "vs \<noteq> [] \<Longrightarrow> py_max vs = Inr (Max (set vs))"
proof (cases vs)
  case Nil
  then show "vs \<noteq> [] \<Longrightarrow> ?thesis" by simp
next
  case (Cons v rest)
  have "foldl max v rest = fold max rest v"
    by (simp add: foldl_conv_fold max.commute)
  then show ?thesis
    using Cons Max.set_eq_fold[of v rest] by (simp add: py_max_def)
qed

lemma square_div_10: "(4::int) \<le> n \<Longrightarrow> n * n div 10 \<noteq> 0"
proof -
  assume n: "4 \<le> n"
  have "4 * 4 \<le> n * n" using n by (intro mult_mono) simp_all
  then have "10 \<le> n * n" by simp
  then have "0 < n * n div 10" by (simp add: pos_imp_zdiv_pos_iff)
  then show ?thesis by simp
qed

lemma get_workspace_analysis_eq:
  assumes "filter (\<lambda>joint. joint_type joint = ''prismatic'') (joints self) \<noteq> []"
    and "4 \<le> resolution"
  shows "\<exists>data self'.
           get_workspace_analysis minimize durations self resolution =
             Inr (data, self', grid_points (max_reach data) resolution) \<and>
           max_reach data =
             sum_list (base_links self)
               + Max (set (map max_limit
                      (filter (\<lambda>joint. joint_type joint = ''prismatic'') (joints self)))) \<and>
           reachable_points data =
             filter (solver_succeeds minimize self) (grid_points (max_reach data) resolution) \<and>
           total_points_tested data = resolution * resolution \<and>
           reachability_ratio data =
             real (length (reachable_points data)) / real_of_int (resolution * resolution) \<and>
           workspace_area data =
             real (length (reachable_points data))
               * (2 * max_reach data / real_of_int resolution)\<^sup>2 \<and>
           same_config self self'"
proof -
  let ?lims = "map max_limit (filter (\<lambda>joint. joint_type joint = ''prismatic'') (joints self))"
  let ?mr = "sum_list (base_links self) + Max (set ?lims)"
  have pm: "py_max ?lims = Inr (Max (set ?lims))"
    using assms(1) by (intro py_max_eq) simp
  obtain vs where vs: "linspace (- ?mr) ?mr resolution = Inr vs"
    using linspace_returns[of resolution] assms(2) by force
  have g: "grid_points ?mr resolution = List.product vs vs"
    by (simp only: grid_points_def vs sum.case)
  have d: "resolution * resolution div 10 \<noteq> 0"
    by (rule square_div_10[OF assms(2)])
  have nz: "resolution * resolution \<noteq> 0" using assms(2) by simp
  obtain s' where r: "analysis_grid minimize durations resolution (enumerate 0 vs) vs
                        (self, [], []) =
                Inr (s', [] @ filter (solver_succeeds minimize self)
                                   (List.product (map snd (enumerate 0 vs)) vs),
                     [] @ List.product (map snd (enumerate 0 vs)) vs)"
      and sc: "same_config self s'"
    using analysis_grid_eq[OF d same_config_refl[of self], where minimize = minimize
            and durations = durations and ixs = "enumerate 0 vs" and ys = vs
            and reach = "[]" and calls = "[]"]
    by blast
  have "get_workspace_analysis minimize durations self resolution =
          Inr (\<lparr>reachable_points = filter (solver_succeeds minimize self) (List.product vs vs),
                 reachability_ratio =
                   real (length (filter (solver_succeeds minimize self) (List.product vs vs)))
                     / real_of_int (resolution * resolution),
                 total_points_tested = resolution * resolution,
                 workspace_area =
                   real (length (filter (solver_succeeds minimize self) (List.product vs vs)))
                     * (2 * ?mr / real_of_int resolution)\<^sup>2,
                 max_reach = ?mr\<rparr>, s', List.product vs vs)"
    unfolding get_workspace_analysis_def pm sum.case Let_def vs
    using r nz by (simp add: enumerate_eq_zip)
  then show ?thesis
    using sc g by simp
qed

lemma linspace_ge2:
  assumes "2 \<le> n"
  shows "\<exists>vs. linspace a b n = Inr vs \<and> length vs = nat n \<and> hd vs = a \<and> last vs = b \<and>
              (\<forall>k<nat n. vs ! k = a + real k * ((b - a) / real_of_int (n - 1)))"
proof -
  let ?f = "\<lambda>k. a + real k * ((b - a) / real_of_int (n - 1))"
  let ?vs = "map ?f [0..<nat n]"
  have pos: "0 < nat n" using assms by simp
  have l: "linspace a b n = Inr ?vs" using assms by (simp add: linspace_def)
  have ne: "[0..<nat n] \<noteq> []" using pos by simp
  have h: "hd ?vs = a" using pos by (simp add: hd_map ne hd_upt)
  have "last ?vs = ?f (nat n - 1)" using ne by (simp add: last_map)
  also have "real (nat n - 1) = real_of_int (n - 1)" using assms by simp
  finally have la: "last ?vs = b" using assms by simp
  show ?thesis using l h la by simp
qed

lemma grid_points_length: "0 \<le> n \<Longrightarrow> length (grid_points mx n) = nat (n * n)"
proof -
  assume n: "0 \<le> n"
  have len: "\<And>vs. linspace (- mx) mx n = Inr vs \<Longrightarrow> length vs = nat n"
    using n by (auto simp add: linspace_def split: if_splits)
  obtain vs where vs: "linspace (- mx) mx n = Inr vs"
    using linspace_returns[OF n] by blast
  show ?thesis
    using len[OF vs] n by (simp add: grid_points_def vs nat_mult_distrib)
qed

lemma analysis_row_same_config:
  "analysis_row minimize durations resolution i xv jys (s, reach, calls) = Inr (s', reach', calls')
     \<Longrightarrow> same_config s0 s \<Longrightarrow> same_config s0 s'"
proof (induction jys arbitrary: s reach calls)
  case Nil
  then show ?case by simp
next
  case (Cons jy jys)
  obtain j yv where jy: "jy = (j, yv)" by (cases jy)
  show ?case
    using Cons.prems Cons.IH inverse_kinematics_same_config(2)[OF Cons.prems(2)]
    by (auto simp add: jy Let_def split: if_splits)
qed

lemma analysis_grid_same_config:
  "analysis_grid minimize durations resolution ixs ys (s, reach, calls) = Inr (s', reach', calls')
     \<Longrightarrow> same_config s0 s \<Longrightarrow> same_config s0 s'"
proof (induction ixs arbitrary: s reach calls)
  case Nil
  then show ?case by simp
next
  case (Cons ix ixs)
  obtain i xv where ix: "ix = (i, xv)" by (cases ix)
  show ?case
    using Cons.prems Cons.IH analysis_row_same_config
    by (fastforce simp add: ix split: sum.splits)
qed

lemma get_workspace_analysis_same_config:
  assumes "get_workspace_analysis minimize durations self resolution = Inr (data, self', calls)"
  shows "same_config self self'"
  using assms analysis_grid_same_config[OF _ same_config_refl[of self]]
  by (fastforce simp add: get_workspace_analysis_def Let_def split: sum.splits if_splits)

lemma arm4_prismatic:
  "filter (\<lambda>joint. joint_type joint = ''prismatic'') (joints arm4) =
     [Joint_init ''prismatic'' (0.0, 2.0) 0]"
  by (simp add: arm4_def Joint_init_def)

lemma ik_b_arm3_gives_up:
  "inverse_kinematics_b minimize_b_gives_up arm3 xv yv None = Inr None"
proof -
  have ja: "joint_angles arm3 = [0, 0, 0]" by (simp add: arm3_def)
  show ?thesis
    unfolding inverse_kinematics_b_def ja
    by (simp add: minimize_b_gives_up_def constraint_arm3_zero objective_def fk_arm3_zero)
qed

lemma grid_points_corner:
  assumes "2 \<le> n"
  shows "(- mx, - mx) \<in> set (grid_points mx n)"
proof -
  obtain vs where vs: "linspace (- mx) mx n = Inr vs" and l: "length vs = nat n"
      and h: "hd vs = - mx"
    using linspace_ge2[OF assms, of "- mx" mx] by blast
  have "vs \<noteq> []" using l assms by auto
  then have "- mx \<in> set vs" using h by (metis hd_in_set)
  then show ?thesis by (simp add: grid_points_def vs)
qed

text \<open>
  Claim C3, as stated, fails on the 4-DOF arm, whose sampler has no oracle at all and calls
  the solver on every grid point. For the arm of \<^verbatim>\<open>create_4dof_arm_configuration\<close> at
  resolution 4 the reach computed by the sampler is 6.5, and the solver is called on the
  corner (-6.5, -6.5), which lies farther than 6.5 from the base: an oracle of the
  specification rejects it whatever its lower bound.
\<close>

theorem workspace_analysis_calls_solver_beyond_reach:
  "\<not> isl (get_workspace_analysis minimize_gives_up no_durations arm4 4) \<and>
   max_reach (fst (projr (get_workspace_analysis minimize_gives_up no_durations arm4 4))) = 6.5 \<and>
   (- 6.5, - 6.5) \<in>
     set (snd (snd (projr (get_workspace_analysis minimize_gives_up no_durations arm4 4)))) \<and>
   \<not> spec_oracle 0 6.5 (- 6.5, - 6.5)"
proof -
  have pr: "filter (\<lambda>joint. joint_type joint = ''prismatic'') (joints arm4) \<noteq> []"
    by (simp add: arm4_prismatic)
  obtain data self' where
    r: "get_workspace_analysis minimize_gives_up no_durations arm4 4 =
          Inr (data, self', grid_points (max_reach data) 4)"
    and m: "max_reach data =
             sum_list (base_links arm4)
               + Max (set (map max_limit
                      (filter (\<lambda>joint. joint_type joint = ''prismatic'') (joints arm4))))"
    using get_workspace_analysis_eq[OF pr, of 4 minimize_gives_up no_durations] by auto
  have mr: "max_reach data = 6.5"
    unfolding m arm4_prismatic by (simp add: arm4_def Joint_init_def)
  have c: "(- 6.5, - 6.5) \<in> set (grid_points 6.5 4)"
    using grid_points_corner[of 4 "6.5"] by simp
  have "(6.5::real)\<^sup>2 < 6.5\<^sup>2 + 6.5\<^sup>2" by simp
  then have "(6.5::real) < sqrt (6.5\<^sup>2 + 6.5\<^sup>2)" by (intro real_less_rsqrt)
  then have o: "\<not> spec_oracle 0 6.5 (- 6.5, - 6.5)"
    by (simp add: spec_oracle_def pnorm_def)
  show ?thesis
    using r mr c o by simp
qed

text \<open>
  Claim C3, amended. The sampler of the revolute arm (\<^verbatim>\<open>get_workspace\<close>) calls the solver,
  seeded from the arm's current joint angles, on exactly the grid points the oracle
  accepts, and classifies as reachable exactly those of them on which the solver finds a
  solution: a point the oracle rejects is never handed to the solver and is never
  reported reachable. The sampler of the 4-DOF arm (\<^verbatim>\<open>get_workspace_analysis\<close>) has no
  oracle: it calls the solver on every grid point and reports reachable exactly the points
  on which the solver succeeds.
\<close>

theorem workspace_sampler_filters:
  assumes "link_lengths arm \<noteq> []" and "0 \<le> resolution"
    and "\<forall>p\<in>set (grid_points (sum_list (link_lengths arm)) resolution).
           \<not> isl (inverse_kinematics_b minimize arm (fst p) (snd p) None)"
    and "filter (\<lambda>joint. joint_type joint = ''prismatic'') (joints self) \<noteq> []"
    and "4 \<le> resolution4"
  shows "(\<exists>reachable tested calls.
            get_workspace minimize arm resolution = Inr (reachable, tested, calls) \<and>
            calls = filter (oracle_accepts arm) tested \<and>
            reachable = filter (solver_finds minimize arm) calls \<and>
            (\<forall>p\<in>set tested. \<not> oracle_accepts arm p \<longrightarrow> p \<notin> set calls \<and> p \<notin> set reachable)) \<and>
         (\<exists>data self'.
            get_workspace_analysis minimize4 durations self resolution4 =
              Inr (data, self', grid_points (max_reach data) resolution4) \<and>
            reachable_points data =
              filter (solver_succeeds minimize4 self) (grid_points (max_reach data) resolution4))"
proof (rule conjI)
  show "\<exists>reachable tested calls.
            get_workspace minimize arm resolution = Inr (reachable, tested, calls) \<and>
            calls = filter (oracle_accepts arm) tested \<and>
            reachable = filter (solver_finds minimize arm) calls \<and>
            (\<forall>p\<in>set tested. \<not> oracle_accepts arm p \<longrightarrow> p \<notin> set calls \<and> p \<notin> set reachable)"
    using get_workspace_eq[OF assms(1) assms(2) assms(3)] by simp
  show "\<exists>data self'.
            get_workspace_analysis minimize4 durations self resolution4 =
              Inr (data, self', grid_points (max_reach data) resolution4) \<and>
            reachable_points data =
              filter (solver_succeeds minimize4 self) (grid_points (max_reach data) resolution4)"
    using get_workspace_analysis_eq[OF assms(4) assms(5), of minimize4 durations] by blast
qed

theorem workspace_sampler_filters_witness:
  "link_lengths arm3 \<noteq> [] \<and> (0::int) \<le> 3 \<and>
   list_all (\<lambda>p. \<not> isl (inverse_kinematics_b minimize_b_gives_up arm3 (fst p) (snd p) None))
     (grid_points (sum_list (link_lengths arm3)) 3) \<and>
   filter (\<lambda>joint. joint_type joint = ''prismatic'') (joints arm4) \<noteq> [] \<and> (4::int) \<le> 4 \<and>
   (\<exists>reachable tested calls.
      get_workspace minimize_b_gives_up arm3 3 = Inr (reachable, tested, calls) \<and>
      calls = filter (oracle_accepts arm3) tested \<and>
      reachable = filter (solver_finds minimize_b_gives_up arm3) calls) \<and>
   (\<exists>data self'.
      get_workspace_analysis minimize_gives_up no_durations arm4 4 =
        Inr (data, self', grid_points (max_reach data) 4) \<and>
      reachable_points data =
        filter (solver_succeeds minimize_gives_up arm4) (grid_points (max_reach data) 4))"
proof -
  have h1: "link_lengths arm3 \<noteq> []" by (simp add: arm3_def)
  have h2: "(0::int) \<le> 3" by simp
  have h3: "\<forall>p\<in>set (grid_points (sum_list (link_lengths arm3)) 3).
              \<not> isl (inverse_kinematics_b minimize_b_gives_up arm3 (fst p) (snd p) None)"
    by (simp add: ik_b_arm3_gives_up)
  have h3': "list_all (\<lambda>p. \<not> isl (inverse_kinematics_b minimize_b_gives_up arm3 (fst p) (snd p) None))
     (grid_points (sum_list (link_lengths arm3)) 3)"
    using h3 by (simp add: list_all_iff)
  have h4: "filter (\<lambda>joint. joint_type joint = ''prismatic'') (joints arm4) \<noteq> []"
    by (simp add: arm4_prismatic)
  have h5: "(4::int) \<le> 4" by simp
  note t = workspace_sampler_filters[OF h1 h2 h3 h4 h5, of minimize_gives_up no_durations]
  have a: "\<exists>reachable tested calls.
      get_workspace minimize_b_gives_up arm3 3 = Inr (reachable, tested, calls) \<and>
      calls = filter (oracle_accepts arm3) tested \<and>
      reachable = filter (solver_finds minimize_b_gives_up arm3) calls"
    using t by blast
  have b: "\<exists>data self'.
      get_workspace_analysis minimize_gives_up no_durations arm4 4 =
        Inr (data, self', grid_points (max_reach data) 4) \<and>
      reachable_points data =
        filter (solver_succeeds minimize_gives_up arm4) (grid_points (max_reach data) 4)"
    using t by blast
  show ?thesis
    using h1 h2 h3' h4 h5 a b by (intro conjI)
qed

lemma is_reachable_arm3_corner: "is_reachable arm3 (- 7) (- 7) = Inr False"
proof -
  have "(7::real)\<^sup>2 < 98" by simp
  then have "(7::real) < sqrt 98" by (intro real_less_rsqrt)
  then show ?thesis by (simp add: is_reachable_def arm3_def)
qed

lemma upt2: "[0..<2] = [0, 1]"
  by (simp add: upt_rec)

text \<open>
  Claim C7, as stated, fails. At resolution 1 the revolute arm's sampler tests the single
  point (-7, -7) for a reach of 7: the one coordinate tested is \<open>- max_reach\<close>, and the grid
  does not extend to \<open>max_reach\<close>. The 4-DOF sampler returns a count of the tested points
  and not the points; at resolution 2 it returns nothing at all, the remainder modulo
  \<^verbatim>\<open>total_points // 10 = 0\<close> in its progress test raising ZeroDivisionError.
\<close>

theorem workspace_grid_small_resolution:
  "sum_list (link_lengths arm3) = 7 \<and>
   get_workspace minimize_b_gives_up arm3 1 = Inr ([], [(- 7, - 7)], []) \<and>
   get_workspace_analysis minimize_gives_up no_durations arm4 2 = Inl ZeroDivisionError"
proof -
  have a: "sum_list (link_lengths arm3) = 7" by (simp add: arm3_def)
  have b: "get_workspace minimize_b_gives_up arm3 1 = Inr ([], [(- 7, - 7)], [])"
    by (simp add: get_workspace_def a linspace_def is_reachable_arm3_corner)
  have c: "get_workspace_analysis minimize_gives_up no_durations arm4 2 = Inl ZeroDivisionError"
    by (simp add: get_workspace_analysis_def arm4_prismatic py_max_def Joint_init_def
        linspace_def upt2 enumerate_eq_zip Let_def)
  show ?thesis using a b c by simp
qed

lemma analyze_workspace_metrics_eq:
  "link_lengths arm \<noteq> [] \<Longrightarrow>
   analyze_workspace_metrics arm reachable tested =
     Inr (real (length reachable)
            * (2 * sum_list (link_lengths arm) / sqrt (real (length tested)))\<^sup>2)"
  by (simp add: analyze_workspace_metrics_def Let_def)

text \<open>
  Claim C7, amended. For a resolution R of at least 2, the sampler of the revolute arm
  tests exactly R * R points, the product of the R evenly spaced values from \<open>- max_reach\<close>
  to \<open>max_reach\<close>, both included, with itself; it returns them in order, together with the
  reachable ones, which are a sublist of them, so at most R * R; and the area reported by
  \<^verbatim>\<open>analyze_workspace_metrics\<close> is \<open>|reachable| * (2 * max_reach / sqrt |tested|)\<^sup>2\<close>. For a
  resolution of at least 4 and an arm with a prismatic joint, the 4-DOF sampler calls the
  solver on the same kind of grid for its own \<open>max_reach\<close>, returns the number R * R of points
  tested and the reachable ones, a sublist of the grid, and its area is
  \<open>|reachable| * (2 * max_reach / sqrt total_points_tested)\<^sup>2\<close>.
\<close>

theorem workspace_grid_and_area:
  fixes arm :: RoboticArm and self :: RoboticArm4DOF and resolution resolution4 :: int
    and minimize :: minimizer_b and minimize4 :: minimizer and durations :: "nat \<Rightarrow> real"
  defines "mx \<equiv> sum_list (link_lengths arm)"
  assumes "link_lengths arm \<noteq> []" and "2 \<le> resolution"
    and "\<forall>p\<in>set (grid_points mx resolution).
           \<not> isl (inverse_kinematics_b minimize arm (fst p) (snd p) None)"
    and "filter (\<lambda>joint. joint_type joint = ''prismatic'') (joints self) \<noteq> []"
    and "4 \<le> resolution4"
  shows "(\<exists>vs reachable tested calls.
            linspace (- mx) mx resolution = Inr vs \<and> length vs = nat resolution \<and>
            hd vs = - mx \<and> last vs = mx \<and>
            (\<forall>k<nat resolution.
               vs ! k = - mx + real k * ((mx - (- mx)) / real_of_int (resolution - 1))) \<and>
            get_workspace minimize arm resolution = Inr (reachable, tested, calls) \<and>
            tested = List.product vs vs \<and>
            length tested = nat (resolution * resolution) \<and>
            reachable =
              filter (\<lambda>p. oracle_accepts arm p \<and> solver_finds minimize arm p) tested \<and>
            length reachable \<le> nat (resolution * resolution) \<and>
            analyze_workspace_metrics arm reachable tested =
              Inr (real (length reachable) * (2 * mx / sqrt (real (length tested)))\<^sup>2)) \<and>
         (\<exists>vs data self'.
            linspace (- max_reach data) (max_reach data) resolution4 = Inr vs \<and>
            length vs = nat resolution4 \<and> hd vs = - max_reach data \<and>
            last vs = max_reach data \<and>
            (\<forall>k<nat resolution4.
               vs ! k = - max_reach data
                  + real k * ((max_reach data - (- max_reach data))
                                / real_of_int (resolution4 - 1))) \<and>
            get_workspace_analysis minimize4 durations self resolution4 =
              Inr (data, self', List.product vs vs) \<and>
            total_points_tested data = resolution4 * resolution4 \<and>
            length (List.product vs vs) = nat (resolution4 * resolution4) \<and>
            reachable_points data = filter (solver_succeeds minimize4 self) (List.product vs vs) \<and>
            length (reachable_points data) \<le> nat (resolution4 * resolution4) \<and>
            workspace_area data =
              real (length (reachable_points data))
                * (2 * max_reach data / sqrt (real_of_int (total_points_tested data)))\<^sup>2)"
proof (rule conjI)
  have r0: "0 \<le> resolution" using assms(3) by simp
  obtain vs where vs: "linspace (- mx) mx resolution = Inr vs"
      and l: "length vs = nat resolution" and h: "hd vs = - mx" and la: "last vs = mx"
      and nth: "\<forall>k<nat resolution.
               vs ! k = - mx + real k * ((mx - (- mx)) / real_of_int (resolution - 1))"
    using linspace_ge2[OF assms(3), of "- mx" mx] by blast
  have g: "grid_points mx resolution = List.product vs vs"
    by (simp only: grid_points_def vs sum.case)
  have len: "length (List.product vs vs) = nat (resolution * resolution)"
    using grid_points_length[OF r0, of mx] g by simp
  let ?reach = "filter (\<lambda>p. oracle_accepts arm p \<and> solver_finds minimize arm p)
                  (List.product vs vs)"
  have gw: "get_workspace minimize arm resolution =
              Inr (?reach, List.product vs vs, filter (oracle_accepts arm) (List.product vs vs))"
    using get_workspace_eq[OF assms(2) r0, of minimize] assms(4)
    unfolding mx_def[symmetric] g by simp
  have le: "length ?reach \<le> nat (resolution * resolution)"
    using length_filter_le[of _ "List.product vs vs"] len by metis
  have area: "analyze_workspace_metrics arm ?reach (List.product vs vs) =
              Inr (real (length ?reach) * (2 * mx / sqrt (real (length (List.product vs vs))))\<^sup>2)"
    unfolding mx_def by (rule analyze_workspace_metrics_eq[OF assms(2)])
  show "\<exists>vs reachable tested calls.
            linspace (- mx) mx resolution = Inr vs \<and> length vs = nat resolution \<and>
            hd vs = - mx \<and> last vs = mx \<and>
            (\<forall>k<nat resolution.
               vs ! k = - mx + real k * ((mx - (- mx)) / real_of_int (resolution - 1))) \<and>
            get_workspace minimize arm resolution = Inr (reachable, tested, calls) \<and>
            tested = List.product vs vs \<and>
            length tested = nat (resolution * resolution) \<and>
            reachable =
              filter (\<lambda>p. oracle_accepts arm p \<and> solver_finds minimize arm p) tested \<and>
            length reachable \<le> nat (resolution * resolution) \<and>
            analyze_workspace_metrics arm reachable tested =
              Inr (real (length reachable) * (2 * mx / sqrt (real (length tested)))\<^sup>2)"
    using vs l h la nth gw len le area by blast
next
  have r0: "0 \<le> resolution4" and r2: "2 \<le> resolution4" using assms(6) by simp_all
  obtain data self' where
    gwa: "get_workspace_analysis minimize4 durations self resolution4 =
             Inr (data, self', grid_points (max_reach data) resolution4)"
    and rp: "reachable_points data =
             filter (solver_succeeds minimize4 self) (grid_points (max_reach data) resolution4)"
    and tp: "total_points_tested data = resolution4 * resolution4"
    and wa: "workspace_area data =
             real (length (reachable_points data))
               * (2 * max_reach data / real_of_int resolution4)\<^sup>2"
    using get_workspace_analysis_eq[OF assms(5) assms(6), of minimize4 durations] by blast
  obtain vs where vs: "linspace (- max_reach data) (max_reach data) resolution4 = Inr vs"
      and l: "length vs = nat resolution4" and h: "hd vs = - max_reach data"
      and la: "last vs = max_reach data"
      and nth: "\<forall>k<nat resolution4.
               vs ! k = - max_reach data
                  + real k * ((max_reach data - (- max_reach data))
                                / real_of_int (resolution4 - 1))"
    using linspace_ge2[OF r2, of "- max_reach data" "max_reach data"] by blast
  have g: "grid_points (max_reach data) resolution4 = List.product vs vs"
    by (simp only: grid_points_def vs sum.case)
  have len: "length (List.product vs vs) = nat (resolution4 * resolution4)"
    using grid_points_length[OF r0, of "max_reach data"] g by simp
  have le: "length (reachable_points data) \<le> nat (resolution4 * resolution4)"
    unfolding rp g using length_filter_le[of _ "List.product vs vs"] len by metis
  have "sqrt (real_of_int (resolution4 * resolution4)) = real_of_int resolution4"
    using r0 by simp
  then have wa': "workspace_area data =
              real (length (reachable_points data))
                * (2 * max_reach data / sqrt (real_of_int (total_points_tested data)))\<^sup>2"
    using wa tp by simp
  show "\<exists>vs data self'.
            linspace (- max_reach data) (max_reach data) resolution4 = Inr vs \<and>
            length vs = nat resolution4 \<and> hd vs = - max_reach data \<and>
            last vs = max_reach data \<and>
            (\<forall>k<nat resolution4.
               vs ! k = - max_reach data
                  + real k * ((max_reach data - (- max_reach data))
                                / real_of_int (resolution4 - 1))) \<and>
            get_workspace_analysis minimize4 durations self resolution4 =
              Inr (data, self', List.product vs vs) \<and>
            total_points_tested data = resolution4 * resolution4 \<and>
            length (List.product vs vs) = nat (resolution4 * resolution4) \<and>
            reachable_points data = filter (solver_succeeds minimize4 self) (List.product vs vs) \<and>
            length (reachable_points data) \<le> nat (resolution4 * resolution4) \<and>
            workspace_area data =
              real (length (reachable_points data))
                * (2 * max_reach data / sqrt (real_of_int (total_points_tested data)))\<^sup>2"
    using vs l h la nth gwa[unfolded g] tp len rp[unfolded g] le wa' by blast
qed

theorem workspace_grid_and_area_witness:
  "link_lengths arm3 \<noteq> [] \<and> (2::int) \<le> 3 \<and>
   list_all (\<lambda>p. \<not> isl (inverse_kinematics_b minimize_b_gives_up arm3 (fst p) (snd p) None))
     (grid_points (sum_list (link_lengths arm3)) 3) \<and>
   filter (\<lambda>joint. joint_type joint = ''prismatic'') (joints arm4) \<noteq> [] \<and> (4::int) \<le> 4 \<and>
   (\<exists>vs reachable tested calls.
      linspace (- sum_list (link_lengths arm3)) (sum_list (link_lengths arm3)) 3 = Inr vs \<and>
      hd vs = - sum_list (link_lengths arm3) \<and> last vs = sum_list (link_lengths arm3) \<and>
      get_workspace minimize_b_gives_up arm3 3 = Inr (reachable, tested, calls) \<and>
      tested = List.product vs vs \<and> length tested = nat (3 * 3) \<and>
      length reachable \<le> nat (3 * 3)) \<and>
   (\<exists>data self' calls.
      get_workspace_analysis minimize_gives_up no_durations arm4 4 = Inr (data, self', calls) \<and>
      total_points_tested data = 4 * 4 \<and> length calls = nat (4 * 4) \<and>
      length (reachable_points data) \<le> nat (4 * 4))"
proof -
  have h1: "link_lengths arm3 \<noteq> []" by (simp add: arm3_def)
  have h2: "(2::int) \<le> 3" by simp
  have h3: "\<forall>p\<in>set (grid_points (sum_list (link_lengths arm3)) 3).
              \<not> isl (inverse_kinematics_b minimize_b_gives_up arm3 (fst p) (snd p) None)"
    by (simp add: ik_b_arm3_gives_up)
  have h3': "list_all (\<lambda>p. \<not> isl (inverse_kinematics_b minimize_b_gives_up arm3 (fst p) (snd p) None))
     (grid_points (sum_list (link_lengths arm3)) 3)"
    using h3 by (simp add: list_all_iff)
  have h4: "filter (\<lambda>joint. joint_type joint = ''prismatic'') (joints arm4) \<noteq> []"
    by (simp add: arm4_prismatic)
  have h5: "(4::int) \<le> 4" by simp
  note t = workspace_grid_and_area[OF h1 h2 h3 h4 h5, of minimize_gives_up no_durations]
  have a: "\<exists>vs reachable tested calls.
      linspace (- sum_list (link_lengths arm3)) (sum_list (link_lengths arm3)) 3 = Inr vs \<and>
      hd vs = - sum_list (link_lengths arm3) \<and> last vs = sum_list (link_lengths arm3) \<and>
      get_workspace minimize_b_gives_up arm3 3 = Inr (reachable, tested, calls) \<and>
      tested = List.product vs vs \<and> length tested = nat (3 * 3) \<and>
      length reachable \<le> nat (3 * 3)"
    using t by blast
  have b: "\<exists>data self' calls.
      get_workspace_analysis minimize_gives_up no_durations arm4 4 = Inr (data, self', calls) \<and>
      total_points_tested data = 4 * 4 \<and> length calls = nat (4 * 4) \<and>
      length (reachable_points data) \<le> nat (4 * 4)"
    using t by blast
  show ?thesis
    using h1 h2 h3' h4 h5 a b by (intro conjI)
qed

subsection \<open>Frame of the solver\<close>

text \<open>
  Claim C8. A call of \<^verbatim>\<open>inverse_kinematics\<close> leaves the arm's joint-value vector and every
  joint (so every joint's stored value) as they were, whatever the target, the guess and
  the outcome; on the 4-DOF arm it changes the performance counters only. The other
  operations that are not the setter leave them alone as well: \<^verbatim>\<open>forward_kinematics\<close> and,
  when it returns, \<^verbatim>\<open>get_workspace_analysis\<close>. The revolute arm's \<^verbatim>\<open>inverse_kinematics\<close>,
  \<^verbatim>\<open>forward_kinematics\<close>, \<^verbatim>\<open>is_reachable\<close> and \<^verbatim>\<open>get_workspace\<close> assign nothing on the arm
  and are functions of it here.
\<close>

theorem inverse_kinematics_frame:
  "joint_values (snd (inverse_kinematics minimize self target guess_arg elapsed)) =
     joint_values self \<and>
   joints (snd (inverse_kinematics minimize self target guess_arg elapsed)) = joints self \<and>
   joint_values (snd (forward_kinematics self vals_arg elapsed)) = joint_values self \<and>
   joints (snd (forward_kinematics self vals_arg elapsed)) = joints self \<and>
   (\<forall>data self' calls.
      get_workspace_analysis minimize durations self resolution = Inr (data, self', calls) \<longrightarrow>
      joint_values self' = joint_values self \<and> joints self' = joints self)"
proof -
  have a: "joint_values (snd (inverse_kinematics minimize self target guess_arg elapsed)) =
     joint_values self"
    by (simp add: inverse_kinematics_def Let_def)
  have b: "joints (snd (inverse_kinematics minimize self target guess_arg elapsed)) = joints self"
    by (simp add: inverse_kinematics_def Let_def)
  have c: "joint_values (snd (forward_kinematics self vals_arg elapsed)) = joint_values self"
    by (simp add: forward_kinematics_def Let_def)
  have d: "joints (snd (forward_kinematics self vals_arg elapsed)) = joints self"
    by (simp add: forward_kinematics_def Let_def)
  have e: "\<forall>data self' calls.
      get_workspace_analysis minimize durations self resolution = Inr (data, self', calls) \<longrightarrow>
      joint_values self' = joint_values self \<and> joints self' = joints self"
  proof (intro allI impI)
    fix data self' calls
    assume "get_workspace_analysis minimize durations self resolution = Inr (data, self', calls)"
    then have "same_config self self'" by (rule get_workspace_analysis_same_config)
    then show "joint_values self' = joint_values self \<and> joints self' = joints self"
      by (simp add: same_config_def)
  qed
  show ?thesis using a b c d e by (intro conjI)
qed

theorem inverse_kinematics_frame_witness:
  "joint_values (snd (inverse_kinematics (minimize_converges_to [1, 0, 1, 0]) arm4 (1, 1) None 0)) =
     joint_values arm4 \<and>
   joints (snd (inverse_kinematics (minimize_converges_to [1, 0, 1, 0]) arm4 (1, 1) None 0)) =
     joints arm4 \<and>
   map jvalue (joints arm4) = [0, 0, 0, 0] \<and>
   \<not> isl (get_workspace_analysis minimize_gives_up no_durations arm4 4) \<and>
   joints (fst (snd (projr (get_workspace_analysis minimize_gives_up no_durations arm4 4)))) =
     joints arm4"
proof -
  have js: "map jvalue (joints arm4) = [0, 0, 0, 0]" by (simp add: arm4_def Joint_init_def)
  have pr: "filter (\<lambda>joint. joint_type joint = ''prismatic'') (joints arm4) \<noteq> []"
    by (simp add: arm4_prismatic)
  obtain data self' calls where
    r: "get_workspace_analysis minimize_gives_up no_durations arm4 4 = Inr (data, self', calls)"
    using get_workspace_analysis_eq[OF pr, of 4 minimize_gives_up no_durations] by auto
  note t = inverse_kinematics_frame[of "minimize_converges_to [1, 0, 1, 0]" arm4 "(1, 1)" None 0
             None no_durations 4]
  have a: "joint_values (snd (inverse_kinematics (minimize_converges_to [1, 0, 1, 0]) arm4 (1, 1)
             None 0)) = joint_values arm4"
    using t by (rule conjunct1)
  have b: "joints (snd (inverse_kinematics (minimize_converges_to [1, 0, 1, 0]) arm4
             (1, 1) None 0)) = joints arm4"
    using t by (elim conjE)
  have c: "joints self' = joints arm4"
    using inverse_kinematics_frame[of minimize_gives_up arm4 "(1, 1)" None 0 None
            no_durations 4] r
    by (elim conjE) blast
  have d: "\<not> isl (get_workspace_analysis minimize_gives_up no_durations arm4 4)"
    unfolding r by simp
  have e: "joints (fst (snd (projr (get_workspace_analysis minimize_gives_up no_durations arm4 4)))) =
     joints arm4"
    unfolding r using c by simp
  show ?thesis
    using a b js d e by (intro conjI)
qed

subsection \<open>Reach\<close>



















end
